theory Spec2Isabelle
  imports Main "HOL-Library.AList"
begin

section \<open>Values and documents\<close>

text \<open>
  The program is a FastAPI application (\<^verbatim>\<open>src/main.py\<close>) over one MongoDB collection.
  A BSON \<^verbatim>\<open>ObjectId\<close> is a 12-byte value; it is carried here by its 24 hexadecimal digits.
  A \<^verbatim>\<open>datetime\<close> is an instant (microseconds since the epoch) with an optional UTC offset
  in minutes (\<open>None\<close> for a naive datetime).
\<close>

datatype ObjectId = ObjectId string

datatype datetime = Datetime int "int option"

text \<open>The Python values a stored document can hold.\<close>

datatype pyval =
    PNone
  | PBool bool
  | PInt int
  | PStr string
  | PList "pyval list"
  | PDict "(string \<times> pyval) list"
  | PObjectId ObjectId
  | PDatetime datetime

text \<open>
  A Python \<^verbatim>\<open>dict\<close> with string keys: an association list in insertion order. A dict has
  no duplicate keys, which is the predicate \<open>is_dict\<close>. \<open>AList.update\<close> is the assignment
  \<^verbatim>\<open>d[k] = v\<close> (in place when the key exists, appended otherwise), \<open>AList.delete\<close> is
  \<^verbatim>\<open>d.pop(k, None)\<close>.
\<close>

type_synonym doc = "(string \<times> pyval) list"

text \<open>Python truthiness of an \<^verbatim>\<open>Optional[str]\<close>: \<^verbatim>\<open>None\<close> and \<^verbatim>\<open>""\<close> are falsy.\<close>

fun truthy :: "string option \<Rightarrow> bool" where
  "truthy None = False"
| "truthy (Some s) = (s \<noteq> [])"

definition is_dict :: "doc \<Rightarrow> bool" where
  "is_dict d = distinct (map fst d)"

definition doc_get :: "doc \<Rightarrow> string \<Rightarrow> pyval" where
  \<comment> \<open>\<^verbatim>\<open>d.get(k)\<close>: \<^verbatim>\<open>None\<close> for a missing key\<close>
  "doc_get d k = (case map_of d k of None \<Rightarrow> PNone | Some v \<Rightarrow> v)"

definition has_key :: "doc \<Rightarrow> string \<Rightarrow> bool" where
  \<comment> \<open>\<^verbatim>\<open>k in d\<close>\<close>
  "has_key d k = (k \<in> set (map fst d))"

fun isinstance_ObjectId :: "pyval \<Rightarrow> bool" where
  "isinstance_ObjectId (PObjectId _) = True"
| "isinstance_ObjectId _ = False"


section \<open>The pydantic models\<close>

text \<open>
  Modelled from the spec: the request model \<^verbatim>\<open>Flashcard\<close> is declared in \<^verbatim>\<open>schemas.py\<close>,
  which is not among the sources. The spec gives it five scalar or list fields; their names
  and types are those of the content fields of \<^verbatim>\<open>FlashcardOut\<close> below.
\<close>

record Flashcard =
  question :: string
  answer :: string
  deck :: "string option"
  tags :: "string list option"
  difficulty :: "string option"

fun opt_str :: "string option \<Rightarrow> pyval" where
  "opt_str None = PNone"
| "opt_str (Some s) = PStr s"

fun opt_list_str :: "string list option \<Rightarrow> pyval" where
  "opt_list_str None = PNone"
| "opt_list_str (Some xs) = PList (map PStr xs)"

definition model_dump :: "Flashcard \<Rightarrow> doc" where
  \<comment> \<open>\<^verbatim>\<open>card.model_dump()\<close>: every declared field, unset optional ones as \<^verbatim>\<open>None\<close>\<close>
  "model_dump c =
     [(''question'', PStr (question c)),
      (''answer'', PStr (answer c)),
      (''deck'', opt_str (deck c)),
      (''tags'', opt_list_str (tags c)),
      (''difficulty'', opt_str (difficulty c))]"

text \<open>
  \<^verbatim>\<open>
  class FlashcardOut(BaseModel):
      id: str
      question: str
      answer: str
      deck: Optional[str] = None
      tags: Optional[List[str]] = None
      difficulty: Optional[str] = None
      created_at: Optional[str] = None
      updated_at: Optional[str] = None
  \<close>
\<close>

record FlashcardOut =
  out_id :: string
  out_question :: string
  out_answer :: string
  out_deck :: "string option"
  out_tags :: "string list option"
  out_difficulty :: "string option"
  out_created_at :: "string option"
  out_updated_at :: "string option"

text \<open>
  The exceptions a handler can leave with. \<open>HTTPException\<close> is the one the handlers raise
  themselves; the others come out of the libraries and are not caught.
\<close>

datatype exn =
    HTTPException nat string
  | ValidationError
  | TypeError
  | InvalidId

definition bind_exn :: "exn + 'a \<Rightarrow> ('a \<Rightarrow> exn + 'b) \<Rightarrow> exn + 'b" where
  "bind_exn r f = (case r of Inl e \<Rightarrow> Inl e | Inr x \<Rightarrow> f x)"

text \<open>
  Validation of one keyword argument against its annotation: a \<^verbatim>\<open>str\<close> field is required
  and takes a string; an \<^verbatim>\<open>Optional\<close> field defaults to \<^verbatim>\<open>None\<close>.
\<close>

definition field_str :: "doc \<Rightarrow> string \<Rightarrow> exn + string" where
  "field_str d k = (case map_of d k of Some (PStr s) \<Rightarrow> Inr s | _ \<Rightarrow> Inl ValidationError)"

definition field_opt_str :: "doc \<Rightarrow> string \<Rightarrow> exn + string option" where
  "field_opt_str d k =
     (case map_of d k of
        None \<Rightarrow> Inr None
      | Some PNone \<Rightarrow> Inr None
      | Some (PStr s) \<Rightarrow> Inr (Some s)
      | _ \<Rightarrow> Inl ValidationError)"

fun the_str :: "pyval \<Rightarrow> string option" where
  "the_str (PStr s) = Some s"
| "the_str _ = None"

fun all_some :: "'a option list \<Rightarrow> 'a list option" where
  "all_some [] = Some []"
| "all_some (None # _) = None"
| "all_some (Some x # xs) = map_option ((#) x) (all_some xs)"

definition field_opt_list_str :: "doc \<Rightarrow> string \<Rightarrow> exn + string list option" where
  "field_opt_list_str d k =
     (case map_of d k of
        None \<Rightarrow> Inr None
      | Some PNone \<Rightarrow> Inr None
      | Some (PList vs) \<Rightarrow>
          (case all_some (map the_str vs) of
             None \<Rightarrow> Inl ValidationError
           | Some xs \<Rightarrow> Inr (Some xs))
      | _ \<Rightarrow> Inl ValidationError)"

definition FlashcardOut_new :: "doc option \<Rightarrow> exn + FlashcardOut" where
  \<comment> \<open>\<^verbatim>\<open>FlashcardOut(**doc)\<close>; \<^verbatim>\<open>**None\<close> is a \<^verbatim>\<open>TypeError\<close>, keys that are not fields are ignored\<close>
  "FlashcardOut_new arg =
     (case arg of
        None \<Rightarrow> Inl TypeError
      | Some d \<Rightarrow>
          bind_exn (field_str d ''id'') (\<lambda>i.
          bind_exn (field_str d ''question'') (\<lambda>q.
          bind_exn (field_str d ''answer'') (\<lambda>a.
          bind_exn (field_opt_str d ''deck'') (\<lambda>dk.
          bind_exn (field_opt_list_str d ''tags'') (\<lambda>tg.
          bind_exn (field_opt_str d ''difficulty'') (\<lambda>df.
          bind_exn (field_opt_str d ''created_at'') (\<lambda>ca.
          bind_exn (field_opt_str d ''updated_at'') (\<lambda>ua.
            Inr \<lparr> out_id = i, out_question = q, out_answer = a, out_deck = dk,
                  out_tags = tg, out_difficulty = df, out_created_at = ca,
                  out_updated_at = ua \<rparr>)))))))))"

section \<open>The database\<close>

text \<open>
  A MongoDB database: its name and its collections by name, each a list of documents in
  storage order. The module global \<^verbatim>\<open>db\<close> is \<^verbatim>\<open>None\<close> when no database is configured.
  The state a handler runs in is that global together with the log of the calls made to the
  database client, so that "no database operation was issued" is a statement about the log.
\<close>

record database =
  db_name :: string
  collections :: "(string \<times> doc list) list"

datatype call =
    Find_one string doc
  | Update_one string doc doc
  | Delete_one string doc
  | List_collection_names
  | Create_document string Flashcard
  | Get_documents string doc "int option"

record world =
  db :: "database option"
  calls :: "call list"

definition issue :: "call \<Rightarrow> world \<Rightarrow> world" where
  "issue c W = W\<lparr>calls := calls W @ [c]\<rparr>"

definition collection :: "database \<Rightarrow> string \<Rightarrow> doc list" where
  \<comment> \<open>\<^verbatim>\<open>db[name]\<close>; a collection that was never written to has no documents\<close>
  "collection D name = (case map_of (collections D) name of None \<Rightarrow> [] | Some c \<Rightarrow> c)"

definition set_collection :: "database \<Rightarrow> string \<Rightarrow> doc list \<Rightarrow> database" where
  "set_collection D name c = D\<lparr>collections := AList.update name c (collections D)\<rparr>"

subsection \<open>The driver\<close>

text \<open>
  The three \<^verbatim>\<open>pymongo\<close> collection methods the handlers call, on the in-memory collection.
  A filter is a dict of equality conditions on top-level fields, which is all the handlers
  pass (\<^verbatim>\<open>{"_id": oid}\<close>). \<^verbatim>\<open>update_one\<close> and \<^verbatim>\<open>delete_one\<close> act on the first document
  that matches and report \<^verbatim>\<open>matched_count\<close> and \<^verbatim>\<open>deleted_count\<close>.
\<close>

definition matches :: "doc \<Rightarrow> doc \<Rightarrow> bool" where
  "matches flt d = list_all (\<lambda>(k, v). map_of d k = Some v) flt"

definition find_one :: "doc list \<Rightarrow> doc \<Rightarrow> doc option" where
  "find_one c flt = List.find (matches flt) c"

definition apply_set :: "doc \<Rightarrow> doc \<Rightarrow> doc" where
  \<comment> \<open>the update \<^verbatim>\<open>{"$set": upd}\<close> on one document\<close>
  "apply_set upd d = fold (\<lambda>(k, v). AList.update k v) upd d"

fun update_one :: "doc list \<Rightarrow> doc \<Rightarrow> doc \<Rightarrow> nat \<times> doc list" where
  "update_one [] flt upd = (0, [])"
| "update_one (d # ds) flt upd =
     (if matches flt d then (1, apply_set upd d # ds)
      else (case update_one ds flt upd of (n, ds') \<Rightarrow> (n, d # ds')))"

fun delete_one :: "doc list \<Rightarrow> doc \<Rightarrow> nat \<times> doc list" where
  "delete_one [] flt = (0, [])"
| "delete_one (d # ds) flt =
     (if matches flt d then (1, ds)
      else (case delete_one ds flt of (n, ds') \<Rightarrow> (n, d # ds')))"

definition list_collection_names :: "database \<Rightarrow> string + string list" where
  \<comment> \<open>\<open>Inl\<close> is the message of an exception; the in-memory database raises none\<close>
  "list_collection_names D = Inr (map fst (collections D))"

section \<open>What the handlers take from outside \<^verbatim>\<open>main.py\<close>\<close>

text \<open>
  The functions of the Python standard library and of \<^verbatim>\<open>bson\<close> that \<^verbatim>\<open>main.py\<close> calls, and
  the two helpers it imports from \<^verbatim>\<open>database.py\<close> (not among the sources), are parameters of
  the model, so that every theorem holds whatever they compute:
  \<^item> \<open>ObjectId_of_str s\<close> is \<^verbatim>\<open>ObjectId(s)\<close>, \<open>None\<close> when the constructor raises;
  \<^item> \<open>py_str v\<close> is \<^verbatim>\<open>str(v)\<close>;
  \<^item> \<open>utc_isoformat t\<close> is \<^verbatim>\<open>t.astimezone(timezone.utc).isoformat()\<close>;
  \<^item> \<open>utc_now\<close> is what \<^verbatim>\<open>datetime.now(timezone.utc)\<close> reads during the request;
  \<^item> \<open>getenv\<close> is \<^verbatim>\<open>os.getenv\<close>;
  \<^item> \<open>create_document D name card\<close> is \<^verbatim>\<open>create_document(name, card)\<close> on the database
    \<open>D\<close>: the identifier it returns and the database it leaves;
  \<^item> \<open>get_documents D name flt limit\<close> is
    \<^verbatim>\<open>get_documents(name, filter_dict=flt, limit=limit)\<close> on the database \<open>D\<close>;
  \<^item> \<open>Flashcard_model_json_schema\<close> is \<^verbatim>\<open>Flashcard.model_json_schema()\<close>.
\<close>

record env =
  ObjectId_of_str :: "string \<Rightarrow> ObjectId option"
  py_str :: "pyval \<Rightarrow> string"
  utc_isoformat :: "datetime \<Rightarrow> string"
  utc_now :: datetime
  getenv :: "string \<Rightarrow> string option"
  create_document :: "database \<Rightarrow> string \<Rightarrow> Flashcard \<Rightarrow> string \<times> database"
  get_documents :: "database \<Rightarrow> string \<Rightarrow> doc \<Rightarrow> int option \<Rightarrow> doc list"
  Flashcard_model_json_schema :: pyval

section \<open>\<^verbatim>\<open>serialize_doc\<close>\<close>

text \<open>
  \<^verbatim>\<open>
  def serialize_doc(doc):
      if not doc:
          return doc
      doc = dict(doc)
      _id = doc.get("_id")
      if isinstance(_id, ObjectId):
          doc["id"] = str(_id)
      elif _id is not None and "id" not in doc:
          doc["id"] = str(_id)
      doc.pop("_id", None)
      for k, v in list(doc.items()):
          if isinstance(v, (datetime,)):
              doc[k] = v.astimezone(timezone.utc).isoformat()
      return doc
  \<close>
  The argument is \<open>None\<close> when \<^verbatim>\<open>find_one\<close> found nothing, so the model takes a
  \<open>doc option\<close>. The loop runs over a snapshot of the items and assigns into the dict.
\<close>

definition isoformat_step :: "env \<Rightarrow> string \<times> pyval \<Rightarrow> doc \<Rightarrow> doc" where
  "isoformat_step L kv acc =
     (case snd kv of
        PDatetime t \<Rightarrow> AList.update (fst kv) (PStr (utc_isoformat L t)) acc
      | _ \<Rightarrow> acc)"

definition isoformat_loop :: "env \<Rightarrow> doc \<Rightarrow> doc" where
  "isoformat_loop L d = fold (isoformat_step L) d d"

definition set_id :: "env \<Rightarrow> doc \<Rightarrow> doc" where
  "set_id L d =
     (let oid = doc_get d ''_id'' in
      if isinstance_ObjectId oid then AList.update ''id'' (PStr (py_str L oid)) d
      else if oid \<noteq> PNone \<and> \<not> has_key d ''id'' then AList.update ''id'' (PStr (py_str L oid)) d
      else d)"

fun serialize_doc :: "env \<Rightarrow> doc option \<Rightarrow> doc option" where
  "serialize_doc L None = None"
| "serialize_doc L (Some d) =
     (if d = [] then Some d
      else Some (isoformat_loop L (AList.delete ''_id'' (set_id L d))))"

text \<open>What the loop does to one value.\<close>

definition iso_value :: "env \<Rightarrow> pyval \<Rightarrow> pyval" where
  "iso_value L v = (case v of PDatetime t \<Rightarrow> PStr (utc_isoformat L t) | _ \<Rightarrow> v)"

section \<open>The flashcard handlers\<close>

text \<open>
  A handler takes the state and its arguments and returns what it returns or raises,
  together with the state it leaves. Each begins with
  \<^verbatim>\<open>if db is None: raise HTTPException(status_code=500, detail="Database not available")\<close>.
\<close>

fun map_exn :: "('a \<Rightarrow> exn + 'b) \<Rightarrow> 'a list \<Rightarrow> exn + 'b list" where
  \<comment> \<open>a list comprehension whose element expression can raise\<close>
  "map_exn f [] = Inr []"
| "map_exn f (x # xs) =
     bind_exn (f x) (\<lambda>y. bind_exn (map_exn f xs) (\<lambda>ys. Inr (y # ys)))"

fun set_if_truthy :: "string \<Rightarrow> string option \<Rightarrow> doc \<Rightarrow> doc" where
  \<comment> \<open>\<^verbatim>\<open>if x: filter_dict[k] = x\<close>\<close>
  "set_if_truthy k x filter_dict =
     (if truthy x then AList.update k (PStr (the x)) filter_dict else filter_dict)"

definition build_filter :: "string option \<Rightarrow> string option \<Rightarrow> doc" where
  "build_filter deck_arg tag_arg =
     set_if_truthy ''tags'' tag_arg (set_if_truthy ''deck'' deck_arg [])"

text \<open>
  \<^verbatim>\<open>
  def list_flashcards(deck=None, tag=None, limit=None):
      if db is None: raise HTTPException(500, "Database not available")
      filter_dict = {}
      if deck: filter_dict["deck"] = deck
      if tag: filter_dict["tags"] = tag
      docs = get_documents("flashcard", filter_dict=filter_dict, limit=limit)
      return [FlashcardOut(**serialize_doc(d)) for d in docs]
  \<close>
\<close>

definition list_flashcards ::
  "env \<Rightarrow> world \<Rightarrow> string option \<Rightarrow> string option \<Rightarrow> int option
     \<Rightarrow> (exn + FlashcardOut list) \<times> world" where
  "list_flashcards E W deck_arg tag_arg limit =
     (case db W of
        None \<Rightarrow> (Inl (HTTPException 500 ''Database not available''), W)
      | Some D \<Rightarrow>
          (let filter_dict = build_filter deck_arg tag_arg;
               docs = get_documents E D ''flashcard'' filter_dict limit;
               W1 = issue (Get_documents ''flashcard'' filter_dict limit) W
           in (map_exn (\<lambda>d. FlashcardOut_new (serialize_doc E (Some d))) docs, W1)))"

text \<open>
  \<^verbatim>\<open>
  def create_flashcard(card):
      if db is None: raise HTTPException(500, "Database not available")
      inserted_id = create_document("flashcard", card)
      doc = db["flashcard"].find_one({"_id": ObjectId(inserted_id)})
      return FlashcardOut(**serialize_doc(doc))
  \<close>
\<close>

definition create_flashcard ::
  "env \<Rightarrow> world \<Rightarrow> Flashcard \<Rightarrow> (exn + FlashcardOut) \<times> world" where
  "create_flashcard E W body =
     (case db W of
        None \<Rightarrow> (Inl (HTTPException 500 ''Database not available''), W)
      | Some D \<Rightarrow>
          (case create_document E D ''flashcard'' body of
             (inserted_id, D1) \<Rightarrow>
               (let W1 = issue (Create_document ''flashcard'' body) (W\<lparr>db := Some D1\<rparr>) in
                case ObjectId_of_str E inserted_id of
                  None \<Rightarrow> (Inl InvalidId, W1)
                | Some oid \<Rightarrow>
                    (let flt = [(''_id'', PObjectId oid)];
                         found = find_one (collection D1 ''flashcard'') flt;
                         W2 = issue (Find_one ''flashcard'' flt) W1
                     in (FlashcardOut_new (serialize_doc E found), W2)))))"

text \<open>
  \<^verbatim>\<open>
  def get_flashcard(card_id):
      if db is None: raise HTTPException(500, "Database not available")
      try: oid = ObjectId(card_id)
      except Exception: raise HTTPException(400, "Invalid ID")
      doc = db["flashcard"].find_one({"_id": oid})
      if not doc: raise HTTPException(404, "Flashcard not found")
      return FlashcardOut(**serialize_doc(doc))
  \<close>
  \<^verbatim>\<open>not doc\<close> holds of \<^verbatim>\<open>None\<close> and of the empty dict.
\<close>

definition get_flashcard ::
  "env \<Rightarrow> world \<Rightarrow> string \<Rightarrow> (exn + FlashcardOut) \<times> world" where
  "get_flashcard E W card_id =
     (case db W of
        None \<Rightarrow> (Inl (HTTPException 500 ''Database not available''), W)
      | Some D \<Rightarrow>
          (case ObjectId_of_str E card_id of
             None \<Rightarrow> (Inl (HTTPException 400 ''Invalid ID''), W)
           | Some oid \<Rightarrow>
               (let flt = [(''_id'', PObjectId oid)];
                    found = find_one (collection D ''flashcard'') flt;
                    W1 = issue (Find_one ''flashcard'' flt) W
                in if found = None \<or> found = Some []
                   then (Inl (HTTPException 404 ''Flashcard not found''), W1)
                   else (FlashcardOut_new (serialize_doc E found), W1))))"

text \<open>
  \<^verbatim>\<open>
  def update_flashcard(card_id, card):
      if db is None: raise HTTPException(500, "Database not available")
      try: oid = ObjectId(card_id)
      except Exception: raise HTTPException(400, "Invalid ID")
      update_data = card.model_dump()
      update_data["updated_at"] = datetime.now(timezone.utc)
      result = db["flashcard"].update_one({"_id": oid}, {"$set": update_data})
      if result.matched_count == 0: raise HTTPException(404, "Flashcard not found")
      doc = db["flashcard"].find_one({"_id": oid})
      return FlashcardOut(**serialize_doc(doc))
  \<close>
  An update that matches nothing writes nothing, so it leaves the database as it was (it
  does not create the collection either).
\<close>

definition update_data_of :: "env \<Rightarrow> Flashcard \<Rightarrow> doc" where
  "update_data_of E body =
     AList.update ''updated_at'' (PDatetime (utc_now E)) (model_dump body)"

definition update_flashcard ::
  "env \<Rightarrow> world \<Rightarrow> string \<Rightarrow> Flashcard \<Rightarrow> (exn + FlashcardOut) \<times> world" where
  "update_flashcard E W card_id body =
     (case db W of
        None \<Rightarrow> (Inl (HTTPException 500 ''Database not available''), W)
      | Some D \<Rightarrow>
          (case ObjectId_of_str E card_id of
             None \<Rightarrow> (Inl (HTTPException 400 ''Invalid ID''), W)
           | Some oid \<Rightarrow>
               (let update_data = update_data_of E body;
                    flt = [(''_id'', PObjectId oid)]
                in case update_one (collection D ''flashcard'') flt update_data of
                     (matched_count, c1) \<Rightarrow>
                       (let D1 = (if matched_count = 0 then D
                                  else set_collection D ''flashcard'' c1);
                            W1 = issue (Update_one ''flashcard'' flt update_data)
                                   (W\<lparr>db := Some D1\<rparr>)
                        in if matched_count = 0
                           then (Inl (HTTPException 404 ''Flashcard not found''), W1)
                           else (let found = find_one (collection D1 ''flashcard'') flt;
                                     W2 = issue (Find_one ''flashcard'' flt) W1
                                 in (FlashcardOut_new (serialize_doc E found), W2))))))"

text \<open>
  \<^verbatim>\<open>
  def delete_flashcard(card_id):
      if db is None: raise HTTPException(500, "Database not available")
      try: oid = ObjectId(card_id)
      except Exception: raise HTTPException(400, "Invalid ID")
      result = db["flashcard"].delete_one({"_id": oid})
      if result.deleted_count == 0: raise HTTPException(404, "Flashcard not found")
      return {"success": True}
  \<close>
\<close>

definition delete_flashcard ::
  "env \<Rightarrow> world \<Rightarrow> string \<Rightarrow> (exn + doc) \<times> world" where
  "delete_flashcard E W card_id =
     (case db W of
        None \<Rightarrow> (Inl (HTTPException 500 ''Database not available''), W)
      | Some D \<Rightarrow>
          (case ObjectId_of_str E card_id of
             None \<Rightarrow> (Inl (HTTPException 400 ''Invalid ID''), W)
           | Some oid \<Rightarrow>
               (let flt = [(''_id'', PObjectId oid)]
                in case delete_one (collection D ''flashcard'') flt of
                     (deleted_count, c1) \<Rightarrow>
                       (let D1 = (if deleted_count = 0 then D
                                  else set_collection D ''flashcard'' c1);
                            W1 = issue (Delete_one ''flashcard'' flt) (W\<lparr>db := Some D1\<rparr>)
                        in if deleted_count = 0
                           then (Inl (HTTPException 404 ''Flashcard not found''), W1)
                           else (Inr [(''success'', PBool True)], W1)))))"

section \<open>The other routes\<close>

text \<open>
  The status strings of \<^verbatim>\<open>/test\<close> begin with a symbol outside ASCII; each is given
  here by its UTF-8 bytes (U+2705, U+274C, U+26A0 U+FE0F).
\<close>

definition check_mark :: string where
  "check_mark = [CHR 0xE2, CHR 0x9C, CHR 0x85]"

definition cross_mark :: string where
  "cross_mark = [CHR 0xE2, CHR 0x9D, CHR 0x8C]"

definition warning_sign :: string where
  "warning_sign = [CHR 0xE2, CHR 0x9A, CHR 0xA0, CHR 0xEF, CHR 0xB8, CHR 0x8F]"

definition read_root :: "world \<Rightarrow> (exn + doc) \<times> world" where
  "read_root W = (Inr [(''message'', PStr ''Hello from FastAPI Backend!'')], W)"

definition hello :: "world \<Rightarrow> (exn + doc) \<times> world" where
  "hello W = (Inr [(''message'', PStr ''Hello from the backend API!'')], W)"

text \<open>
  \<^verbatim>\<open>
  def test_database():
      response = {"backend": "[ok] Running", "database": "[x] Not Available",
                  "database_url": None, "database_name": None,
                  "connection_status": "Not Connected", "collections": []}
      try:
          if db is not None:
              response["database"] = "[ok] Available"
              response["database_url"] = "[ok] Configured"
              response["database_name"] = db.name if hasattr(db, 'name') else "[ok] Connected"
              response["connection_status"] = "Connected"
              try:
                  collections = db.list_collection_names()
                  response["collections"] = collections[:10]
                  response["database"] = "[ok] Connected & Working"
              except Exception as e:
                  response["database"] = f"[!]  Connected but Error: {str(e)[:50]}"
          else:
              response["database"] = "[!]  Available but not initialized"
      except Exception as e:
          response["database"] = f"[x] Error: {str(e)[:50]}"
      response["database_url"] = "[ok] Set" if os.getenv("DATABASE_URL") else "[x] Not Set"
      response["database_name"] = "[ok] Set" if os.getenv("DATABASE_NAME") else "[x] Not Set"
      return response
  \<close>
  (\<^verbatim>\<open>[ok]\<close>, \<^verbatim>\<open>[x]\<close> and \<^verbatim>\<open>[!]\<close> stand for the three symbols.) A database object always
  has a \<^verbatim>\<open>name\<close>, and nothing under the outer \<^verbatim>\<open>try\<close> raises apart from the driver
  call, which has its own handler; so the outer \<^verbatim>\<open>except\<close> has no branch here.
\<close>

definition env_status :: "env \<Rightarrow> string \<Rightarrow> pyval" where
  "env_status E name =
     PStr (if truthy (getenv E name) then check_mark @ '' Set'' else cross_mark @ '' Not Set'')"

definition test_database :: "env \<Rightarrow> world \<Rightarrow> (exn + doc) \<times> world" where
  "test_database E W =
     (let response =
            [(''backend'', PStr (check_mark @ '' Running'')),
             (''database'', PStr (cross_mark @ '' Not Available'')),
             (''database_url'', PNone),
             (''database_name'', PNone),
             (''connection_status'', PStr ''Not Connected''),
             (''collections'', PList [])];
          (response, W1) =
            (case db W of
               Some D \<Rightarrow>
                 (let response = AList.update ''database'' (PStr (check_mark @ '' Available'')) response;
                      response = AList.update ''database_url'' (PStr (check_mark @ '' Configured'')) response;
                      response = AList.update ''database_name'' (PStr (db_name D)) response;
                      response = AList.update ''connection_status'' (PStr ''Connected'') response
                  in (case list_collection_names D of
                        Inr names \<Rightarrow>
                          AList.update ''database'' (PStr (check_mark @ '' Connected & Working''))
                            (AList.update ''collections'' (PList (map PStr (take 10 names))) response)
                      | Inl msg \<Rightarrow>
                          AList.update ''database''
                            (PStr (warning_sign @ ''  Connected but Error: '' @ take 50 msg)) response,
                      issue List_collection_names W))
             | None \<Rightarrow>
                 (AList.update ''database''
                    (PStr (warning_sign @ ''  Available but not initialized'')) response, W));
          response = AList.update ''database_url'' (env_status E ''DATABASE_URL'') response;
          response = AList.update ''database_name'' (env_status E ''DATABASE_NAME'') response
      in (Inr response, W1))"

definition get_schema :: "env \<Rightarrow> world \<Rightarrow> (exn + doc) \<times> world" where
  "get_schema E W = (Inr [(''flashcard'', Flashcard_model_json_schema E)], W)"

section \<open>The route table\<close>

text \<open>The decorators of \<^verbatim>\<open>main.py\<close>, in the order of the file.\<close>

datatype http_method = GET | POST | PUT | DELETE

datatype handler =
    Read_root
  | Hello
  | Test_database
  | List_flashcards
  | Create_flashcard
  | Get_flashcard
  | Update_flashcard
  | Delete_flashcard
  | Get_schema

definition routes :: "(http_method \<times> string \<times> handler) list" where
  "routes =
     [(GET, ''/'', Read_root),
      (GET, ''/api/hello'', Hello),
      (GET, ''/test'', Test_database),
      (GET, ''/api/flashcards'', List_flashcards),
      (POST, ''/api/flashcards'', Create_flashcard),
      (GET, ''/api/flashcards/{card_id}'', Get_flashcard),
      (PUT, ''/api/flashcards/{card_id}'', Update_flashcard),
      (DELETE, ''/api/flashcards/{card_id}'', Delete_flashcard),
      (GET, ''/schema'', Get_schema)]"

text \<open>What a request carries for the handler it reaches, and what the handler answers.\<close>

record request =
  req_card_id :: string
  req_body :: Flashcard
  req_deck :: "string option"
  req_tag :: "string option"
  req_limit :: "int option"

datatype response =
    Card FlashcardOut
  | Cards "FlashcardOut list"
  | Json doc

definition answer_with :: "('a \<Rightarrow> response) \<Rightarrow> (exn + 'a) \<times> world \<Rightarrow> (exn + response) \<times> world" where
  "answer_with f r = (map_sum (\<lambda>e. e) f (fst r), snd r)"

fun run_handler :: "env \<Rightarrow> world \<Rightarrow> handler \<Rightarrow> request \<Rightarrow> (exn + response) \<times> world" where
  "run_handler E W Read_root rq = answer_with Json (read_root W)"
| "run_handler E W Hello rq = answer_with Json (hello W)"
| "run_handler E W Test_database rq = answer_with Json (test_database E W)"
| "run_handler E W List_flashcards rq =
     answer_with Cards (list_flashcards E W (req_deck rq) (req_tag rq) (req_limit rq))"
| "run_handler E W Create_flashcard rq = answer_with Card (create_flashcard E W (req_body rq))"
| "run_handler E W Get_flashcard rq = answer_with Card (get_flashcard E W (req_card_id rq))"
| "run_handler E W Update_flashcard rq =
     answer_with Card (update_flashcard E W (req_card_id rq) (req_body rq))"
| "run_handler E W Delete_flashcard rq = answer_with Json (delete_flashcard E W (req_card_id rq))"
| "run_handler E W Get_schema rq = answer_with Json (get_schema E W)"

definition flashcard_path :: "string \<Rightarrow> bool" where
  "flashcard_path p = (take 15 p = ''/api/flashcards'')"

fun call_collection :: "call \<Rightarrow> string option" where
  \<comment> \<open>the collection a call reads or writes, if any\<close>
  "call_collection (Find_one name _) = Some name"
| "call_collection (Update_one name _ _) = Some name"
| "call_collection (Delete_one name _) = Some name"
| "call_collection (Create_document name _) = Some name"
| "call_collection (Get_documents name _ _) = Some name"
| "call_collection List_collection_names = None"

definition replace_documents :: "string \<Rightarrow> doc list \<Rightarrow> world \<Rightarrow> world" where
  \<comment> \<open>the state in which the collection \<open>name\<close>, if the database has it, holds \<open>docs\<close> instead\<close>
  "replace_documents name docs W =
     W\<lparr>db := map_option
           (\<lambda>D. D\<lparr>collections :=
                    map (\<lambda>(n, c). if n = name then (n, docs) else (n, c)) (collections D)\<rparr>)
           (db W)\<rparr>"

text \<open>A scalar value, or a list of scalars.\<close>

fun is_scalar :: "pyval \<Rightarrow> bool" where
  "is_scalar PNone = True"
| "is_scalar (PBool _) = True"
| "is_scalar (PInt _) = True"
| "is_scalar (PStr _) = True"
| "is_scalar _ = False"

fun scalar_or_list :: "pyval \<Rightarrow> bool" where
  "scalar_or_list (PList vs) = list_all is_scalar vs"
| "scalar_or_list v = is_scalar v"

section \<open>A concrete instance\<close>

text \<open>
  An environment, a database with one stored card and a request body, on which the
  definitions above can be run.
\<close>

definition env0 :: env where
  "env0 =
     \<lparr> ObjectId_of_str = (\<lambda>s. if length s = 24 then Some (ObjectId s) else None),
       py_str = (\<lambda>v. case v of PObjectId (ObjectId h) \<Rightarrow> h | PStr s \<Rightarrow> s | _ \<Rightarrow> []),
       utc_isoformat = (\<lambda>t. case t of Datetime us off \<Rightarrow>
          (if us = 0 then ''1970-01-01T00:00:00+00:00'' else ''2024-01-01T00:00:00+00:00'')),
       utc_now = Datetime 1704067200000000 (Some 0),
       getenv = (\<lambda>name. None),
       create_document = (\<lambda>D name body.
          (''aaaaaaaaaaaaaaaaaaaaaaaa'',
           set_collection D name
             (collection D name @
                [(''_id'', PObjectId (ObjectId ''aaaaaaaaaaaaaaaaaaaaaaaa'')) # model_dump body]))),
       get_documents = (\<lambda>D name flt limit.
          (case limit of
             None \<Rightarrow> filter (matches flt) (collection D name)
           | Some n \<Rightarrow> take (nat n) (filter (matches flt) (collection D name)))),
       Flashcard_model_json_schema = PDict [] \<rparr>"

definition doc0 :: doc where
  "doc0 =
     [(''_id'', PObjectId (ObjectId ''0123456789abcdef01234567'')),
      (''question'', PStr ''2+2?''),
      (''answer'', PStr ''4''),
      (''created_at'', PDatetime (Datetime 0 None))]"

definition database0 :: database where
  "database0 = \<lparr> db_name = ''app'', collections = [(''flashcard'', [doc0])] \<rparr>"

definition world0 :: world where
  "world0 = \<lparr> db = Some database0, calls = [] \<rparr>"

definition body0 :: Flashcard where
  "body0 = \<lparr> question = ''2+2?'', answer = ''four'', deck = Some ''maths'',
             tags = None, difficulty = None \<rparr>"

definition request0 :: request where
  "request0 = \<lparr> req_card_id = ''0123456789abcdef01234567'', req_body = body0,
                req_deck = None, req_tag = None, req_limit = None \<rparr>"

section \<open>Properties of \<^verbatim>\<open>serialize_doc\<close>\<close>

lemma update_at_key:
  "k \<notin> fst ` set ys \<Longrightarrow> AList.update k w (ys @ (k, v) # xs) = ys @ (k, w) # xs"
  by (induction ys) auto

lemma isoformat_step_at_key:
  assumes "k \<notin> fst ` set ys"
  shows "isoformat_step L (k, v) (ys @ (k, v) # xs) = ys @ (k, iso_value L v) # xs"
  using assms by (cases v) (simp_all add: isoformat_step_def iso_value_def update_at_key)

lemma fold_isoformat_step:
  "distinct (map fst (ys @ xs)) \<Longrightarrow>
   fold (isoformat_step L) xs (ys @ xs) = ys @ AList.map_ran (\<lambda>_. iso_value L) xs"
proof (induction xs arbitrary: ys)
  case Nil
  then show ?case by simp
next
  case (Cons kv xs)
  obtain k v where kv: "kv = (k, v)" by (cases kv)
  from Cons.prems kv have notin: "k \<notin> fst ` set ys" by auto
  from Cons.prems kv have dist: "distinct (map fst ((ys @ [(k, iso_value L v)]) @ xs))" by auto
  have "fold (isoformat_step L) (kv # xs) (ys @ kv # xs)
        = fold (isoformat_step L) xs ((ys @ [(k, iso_value L v)]) @ xs)"
    using isoformat_step_at_key [OF notin, of L v xs] kv by simp
  also have "\<dots> = (ys @ [(k, iso_value L v)]) @ AList.map_ran (\<lambda>_. iso_value L) xs"
    using Cons.IH [OF dist] .
  finally show ?case using kv by simp
qed

lemma isoformat_loop_map_ran:
  "is_dict d \<Longrightarrow> isoformat_loop L d = AList.map_ran (\<lambda>_. iso_value L) d"
  using fold_isoformat_step [of "[]" d L] by (simp add: isoformat_loop_def is_dict_def)

lemma is_dict_set_id: "is_dict d \<Longrightarrow> is_dict (set_id L d)"
  by (simp add: set_id_def is_dict_def Let_def distinct_update)

lemma is_dict_delete: "is_dict d \<Longrightarrow> is_dict (AList.delete k d)"
  by (simp add: is_dict_def distinct_delete)

lemma map_ran_id:
  "\<forall>(k, v) \<in> set d. f k v = v \<Longrightarrow> AList.map_ran f d = d"
  by (induction d) auto

lemma iso_value_idem: "iso_value L (iso_value L v) = iso_value L v"
  by (cases v) (simp_all add: iso_value_def)

lemma map_ran_iso_value_idem:
  "AList.map_ran (\<lambda>_. iso_value L) (AList.map_ran (\<lambda>_. iso_value L) d)
   = AList.map_ran (\<lambda>_. iso_value L) d"
  by (induction d) (auto simp: iso_value_idem)

lemma doc_get_no_key:
  assumes "k \<notin> fst ` set d"
  shows "doc_get d k = PNone"
proof -
  from assms have "map_of d k = None" by (simp add: map_of_eq_None_iff)
  then show ?thesis by (simp add: doc_get_def)
qed

lemma set_id_no_key: "''_id'' \<notin> fst ` set d \<Longrightarrow> set_id L d = d"
  by (simp add: set_id_def doc_get_no_key)

lemma serialize_dict_eq:
  assumes "is_dict d"
  shows "serialize_doc E (Some d)
         = Some (AList.map_ran (\<lambda>_. iso_value E) (AList.delete ''_id'' (set_id E d)))"
proof (cases "d = []")
  case True
  then show ?thesis by (simp add: set_id_def doc_get_def has_key_def)
next
  case False
  with assms show ?thesis
    by (simp add: isoformat_loop_map_ran is_dict_delete is_dict_set_id)
qed

lemma no_id_map_ran_delete:
  "''_id'' \<notin> fst ` set (AList.map_ran f (AList.delete ''_id'' e))"
  by (simp add: dom_map_ran delete_notin_dom)

lemma is_dict_map_ran: "is_dict d \<Longrightarrow> is_dict (AList.map_ran f d)"
  by (simp add: is_dict_def distinct_map_ran)



lemma serialize_doc0:
  "serialize_doc env0 (Some doc0) =
     Some [(''question'', PStr ''2+2?''), (''answer'', PStr ''4''),
           (''created_at'', PStr ''1970-01-01T00:00:00+00:00''),
           (''id'', PStr ''0123456789abcdef01234567'')]"
  by (simp add: env0_def doc0_def isoformat_loop_def isoformat_step_def set_id_def
      doc_get_def has_key_def)

lemma is_dict_doc0: "is_dict doc0"
  by (simp add: is_dict_def doc0_def)

subsection \<open>Shape of a serialized document\<close>



subsection \<open>Idempotence\<close>

text \<open>
  C10. \<^verbatim>\<open>serialize_doc\<close> is idempotent on dictionaries: after one application the key
  \<^verbatim>\<open>_id\<close> is absent and no value is a datetime, so a second application changes nothing.
\<close>

theorem serialize_doc_idempotent:
  assumes "is_dict d"
  shows "serialize_doc E (serialize_doc E (Some d)) = serialize_doc E (Some d)"
proof -
  define e where "e = AList.delete ''_id'' (set_id E d)"
  define r where "r = AList.map_ran (\<lambda>_. iso_value E) e"
  have first: "serialize_doc E (Some d) = Some r"
    using serialize_dict_eq [OF assms] by (simp add: r_def e_def)
  have dict_r: "is_dict r"
    unfolding r_def e_def
    by (intro is_dict_map_ran is_dict_delete is_dict_set_id assms)
  have no_id: "''_id'' \<notin> fst ` set r"
    unfolding r_def e_def by (rule no_id_map_ran_delete)
  have "serialize_doc E (Some r)
        = Some (AList.map_ran (\<lambda>_. iso_value E) (AList.delete ''_id'' (set_id E r)))"
    by (rule serialize_dict_eq [OF dict_r])
  also have "\<dots> = Some (AList.map_ran (\<lambda>_. iso_value E) r)"
    using no_id by (simp add: set_id_no_key)
  also have "\<dots> = Some r"
    by (simp add: r_def map_ran_iso_value_idem)
  finally have "serialize_doc E (Some r) = Some r" .
  with first show ?thesis by simp
qed

theorem serialize_doc_idempotent_witness:
  "is_dict doc0
   \<and> serialize_doc env0 (serialize_doc env0 (Some doc0)) = serialize_doc env0 (Some doc0)
   \<and> serialize_doc env0 (Some doc0) \<noteq> Some doc0"
proof -
  have "serialize_doc env0 (Some doc0) \<noteq> Some doc0"
    unfolding serialize_doc0 by (simp add: doc0_def)
  with serialize_doc_idempotent [OF is_dict_doc0, of env0] is_dict_doc0
  show ?thesis by simp
qed

section \<open>Properties of the handlers\<close>

subsection \<open>Exceptions out of the libraries\<close>

lemma bind_exn_Inl:
  "bind_exn r f = Inl e \<longleftrightarrow> r = Inl e \<or> (\<exists>x. r = Inr x \<and> f x = Inl e)"
  by (cases r) (simp_all add: bind_exn_def)

lemma field_str_exn: "field_str d k = Inl e \<Longrightarrow> e = ValidationError"
  by (auto simp: field_str_def split: option.splits pyval.splits)

lemma field_opt_str_exn: "field_opt_str d k = Inl e \<Longrightarrow> e = ValidationError"
  by (auto simp: field_opt_str_def split: option.splits pyval.splits)

lemma field_opt_list_str_exn: "field_opt_list_str d k = Inl e \<Longrightarrow> e = ValidationError"
  by (auto simp: field_opt_list_str_def split: option.splits pyval.splits)

lemma FlashcardOut_new_exn:
  assumes "FlashcardOut_new x = Inl e"
  shows "e = ValidationError \<or> e = TypeError"
proof (cases x)
  case None
  with assms show ?thesis by (simp add: FlashcardOut_new_def)
next
  case (Some d)
  with assms have "e = ValidationError"
    unfolding FlashcardOut_new_def
    by (auto simp: bind_exn_Inl
        dest: field_str_exn field_opt_str_exn field_opt_list_str_exn)
  then show ?thesis by simp
qed

lemma FlashcardOut_new_not_http: "FlashcardOut_new x \<noteq> Inl (HTTPException s m)"
  using FlashcardOut_new_exn [of x "HTTPException s m"] by auto

lemma map_exn_Inl:
  "map_exn f xs = Inl e \<Longrightarrow> \<exists>x \<in> set xs. f x = Inl e"
  by (induction xs) (auto simp: bind_exn_Inl)

lemma map_exn_Inr_length:
  "map_exn f xs = Inr ys \<Longrightarrow> length ys = length xs"
proof (induction xs arbitrary: ys)
  case Nil
  then show ?case by simp
next
  case (Cons x xs)
  then show ?case
    by (cases "f x"; cases "map_exn f xs") (auto simp: bind_exn_def)
qed

subsection \<open>The driver on a filter by identifier\<close>

lemma find_one_None_iff:
  "find_one c flt = None \<longleftrightarrow> (\<forall>d \<in> set c. \<not> matches flt d)"
  by (auto simp: find_one_def find_None_iff)

lemma find_one_Some_matches:
  "find_one c flt = Some d \<Longrightarrow> d \<in> set c \<and> matches flt d"
  by (auto simp: find_one_def find_Some_iff)

lemma matches_id:
  "matches [(''_id'', v)] d \<longleftrightarrow> map_of d ''_id'' = Some v"
  by (simp add: matches_def)

lemma find_one_id_nonempty:
  "find_one c [(''_id'', v)] = Some d \<Longrightarrow> d \<noteq> []"
  by (auto dest!: find_one_Some_matches simp: matches_id)

lemma update_one_count_zero_iff:
  "fst (update_one c flt upd) = 0 \<longleftrightarrow> (\<forall>d \<in> set c. \<not> matches flt d)"
  by (induction c) (auto split: prod.splits)

lemma delete_one_count_zero_iff:
  "fst (delete_one c flt) = 0 \<longleftrightarrow> (\<forall>d \<in> set c. \<not> matches flt d)"
  by (induction c) (auto split: prod.splits)

lemma update_one_count_zero_same:
  "fst (update_one c flt upd) = 0 \<Longrightarrow> snd (update_one c flt upd) = c"
  by (induction c) (auto split: prod.splits if_splits)

lemma delete_one_count_zero_same:
  "fst (delete_one c flt) = 0 \<Longrightarrow> snd (delete_one c flt) = c"
  by (induction c) (auto split: prod.splits if_splits)

subsection \<open>Empty query parameters\<close>

text \<open>
  C9. In \<^verbatim>\<open>list_flashcards\<close> the parameters \<^verbatim>\<open>deck\<close> and \<^verbatim>\<open>tag\<close> are tested for
  truthiness: with the empty string the filter clause is omitted, and the request does
  exactly what the request without that parameter does (same filter, same call, same
  result).
\<close>

theorem empty_parameter_is_absent:
  "build_filter (Some []) tag_arg = build_filter None tag_arg
   \<and> build_filter deck_arg (Some []) = build_filter deck_arg None
   \<and> map_of (build_filter (Some []) tag_arg) ''deck'' = None
   \<and> map_of (build_filter deck_arg (Some [])) ''tags'' = None
   \<and> list_flashcards E W (Some []) tag_arg limit = list_flashcards E W None tag_arg limit
   \<and> list_flashcards E W deck_arg (Some []) limit = list_flashcards E W deck_arg None limit"
proof -
  have f1: "build_filter (Some []) tag_arg = build_filter None tag_arg"
    by (simp add: build_filter_def)
  have f2: "build_filter deck_arg (Some []) = build_filter deck_arg None"
    by (simp add: build_filter_def)
  have m1: "map_of (build_filter (Some []) tag_arg) ''deck'' = None"
    by (simp add: build_filter_def update_conv')
  have m2: "map_of (build_filter deck_arg (Some [])) ''tags'' = None"
    by (simp add: build_filter_def update_conv')
  have l1: "list_flashcards E W (Some []) tag_arg limit = list_flashcards E W None tag_arg limit"
    unfolding list_flashcards_def f1 ..
  have l2: "list_flashcards E W deck_arg (Some []) limit = list_flashcards E W deck_arg None limit"
    unfolding list_flashcards_def f2 ..
  from f1 f2 m1 m2 l1 l2 show ?thesis by blast
qed

subsection \<open>Identifiers that do not parse\<close>

text \<open>
  C2. With the database available, a \<^verbatim>\<open>card_id\<close> that \<^verbatim>\<open>ObjectId\<close> rejects makes each
  of \<^verbatim>\<open>get_flashcard\<close>, \<^verbatim>\<open>update_flashcard\<close> and \<^verbatim>\<open>delete_flashcard\<close> raise
  \<^verbatim>\<open>HTTPException(400, "Invalid ID")\<close> and leave the state as it was: the database is
  unchanged and no call to the database client has been issued.
\<close>

theorem invalid_id_is_400:
  assumes "db W = Some D" and "ObjectId_of_str E card_id = None"
  shows "get_flashcard E W card_id = (Inl (HTTPException 400 ''Invalid ID''), W)
       \<and> update_flashcard E W card_id body = (Inl (HTTPException 400 ''Invalid ID''), W)
       \<and> delete_flashcard E W card_id = (Inl (HTTPException 400 ''Invalid ID''), W)"
  using assms by (simp add: get_flashcard_def update_flashcard_def delete_flashcard_def)

theorem invalid_id_is_400_witness:
  "db world0 = Some database0
   \<and> ObjectId_of_str env0 ''not-an-id'' = None
   \<and> get_flashcard env0 world0 ''not-an-id'' = (Inl (HTTPException 400 ''Invalid ID''), world0)
   \<and> update_flashcard env0 world0 ''not-an-id'' body0
       = (Inl (HTTPException 400 ''Invalid ID''), world0)
   \<and> delete_flashcard env0 world0 ''not-an-id''
       = (Inl (HTTPException 400 ''Invalid ID''), world0)"
proof -
  have a: "db world0 = Some database0" by (simp add: world0_def)
  have b: "ObjectId_of_str env0 ''not-an-id'' = None" by (simp add: env0_def)
  from invalid_id_is_400 [OF a b, of body0] a b show ?thesis by simp
qed

subsection \<open>The exceptions the handlers raise themselves\<close>

lemma list_flashcards_http:
  assumes "fst (list_flashcards E W deck_arg tag_arg limit) = Inl (HTTPException s m)"
  shows "s = 500 \<and> m = ''Database not available''"
proof (cases "db W")
  case None
  with assms show ?thesis by (simp add: list_flashcards_def)
next
  case (Some D)
  with assms obtain x where "FlashcardOut_new x = Inl (HTTPException s m)"
    by (auto simp: list_flashcards_def Let_def dest!: map_exn_Inl)
  then show ?thesis by (simp add: FlashcardOut_new_not_http)
qed

lemma create_flashcard_http:
  assumes "fst (create_flashcard E W body) = Inl (HTTPException s m)"
  shows "s = 500 \<and> m = ''Database not available''"
proof (cases "db W")
  case None
  with assms show ?thesis by (simp add: create_flashcard_def)
next
  case (Some D)
  obtain i D1 where c: "create_document E D ''flashcard'' body = (i, D1)"
    by (cases "create_document E D ''flashcard'' body")
  show ?thesis
  proof (cases "ObjectId_of_str E i")
    case None
    with assms Some c show ?thesis by (simp add: create_flashcard_def)
  next
    case (Some oid)
    with assms \<open>db W = Some D\<close> c show ?thesis
      by (simp add: create_flashcard_def Let_def FlashcardOut_new_not_http)
  qed
qed

lemma get_flashcard_http:
  assumes "fst (get_flashcard E W card_id) = Inl (HTTPException s m)"
  shows "(s, m) \<in> {(400, ''Invalid ID''), (404, ''Flashcard not found''),
                    (500, ''Database not available'')}"
proof (cases "db W")
  case None
  with assms show ?thesis by (simp add: get_flashcard_def)
next
  case (Some D)
  show ?thesis
  proof (cases "ObjectId_of_str E card_id")
    case None
    with assms Some show ?thesis by (simp add: get_flashcard_def)
  next
    case (Some oid)
    with assms \<open>db W = Some D\<close> show ?thesis
      by (simp add: get_flashcard_def Let_def FlashcardOut_new_not_http split: if_splits)
  qed
qed

lemma update_flashcard_http:
  assumes "fst (update_flashcard E W card_id body) = Inl (HTTPException s m)"
  shows "(s, m) \<in> {(400, ''Invalid ID''), (404, ''Flashcard not found''),
                    (500, ''Database not available'')}"
proof (cases "db W")
  case None
  with assms show ?thesis by (simp add: update_flashcard_def)
next
  case (Some D)
  show ?thesis
  proof (cases "ObjectId_of_str E card_id")
    case None
    with assms Some show ?thesis by (simp add: update_flashcard_def)
  next
    case (Some oid)
    obtain n c1 where u: "update_one (collection D ''flashcard'') [(''_id'', PObjectId oid)]
                            (update_data_of E body) = (n, c1)"
      by (cases "update_one (collection D ''flashcard'') [(''_id'', PObjectId oid)]
                   (update_data_of E body)")
    with assms Some \<open>db W = Some D\<close> show ?thesis
      by (simp add: update_flashcard_def Let_def FlashcardOut_new_not_http split: if_splits)
  qed
qed

lemma delete_flashcard_http:
  assumes "fst (delete_flashcard E W card_id) = Inl (HTTPException s m)"
  shows "(s, m) \<in> {(400, ''Invalid ID''), (404, ''Flashcard not found''),
                    (500, ''Database not available'')}"
proof (cases "db W")
  case None
  with assms show ?thesis by (simp add: delete_flashcard_def)
next
  case (Some D)
  show ?thesis
  proof (cases "ObjectId_of_str E card_id")
    case None
    with assms Some show ?thesis by (simp add: delete_flashcard_def)
  next
    case (Some oid)
    obtain n c1 where u: "delete_one (collection D ''flashcard'') [(''_id'', PObjectId oid)]
                            = (n, c1)"
      by (cases "delete_one (collection D ''flashcard'') [(''_id'', PObjectId oid)]")
    with assms Some \<open>db W = Some D\<close> show ?thesis
      by (simp add: delete_flashcard_def Let_def split: if_splits)
  qed
qed

subsection \<open>No database\<close>

text \<open>
  C3. When \<^verbatim>\<open>db\<close> is \<^verbatim>\<open>None\<close>, each of the five flashcard handlers raises
  \<^verbatim>\<open>HTTPException(500, "Database not available")\<close> before anything else: whatever its
  arguments, and with the state (the log of client calls included) untouched. And the
  only \<^verbatim>\<open>HTTPException\<close>s the five handlers ever raise are 400 "Invalid ID",
  404 "Flashcard not found" and 500 "Database not available".
\<close>

theorem database_unavailable_is_500:
  "(db W = None \<longrightarrow>
      list_flashcards E W deck_arg tag_arg limit
        = (Inl (HTTPException 500 ''Database not available''), W)
    \<and> create_flashcard E W body = (Inl (HTTPException 500 ''Database not available''), W)
    \<and> get_flashcard E W card_id = (Inl (HTTPException 500 ''Database not available''), W)
    \<and> update_flashcard E W card_id body
        = (Inl (HTTPException 500 ''Database not available''), W)
    \<and> delete_flashcard E W card_id = (Inl (HTTPException 500 ''Database not available''), W))
   \<and> (\<forall>s m.
        (fst (list_flashcards E W deck_arg tag_arg limit) = Inl (HTTPException s m)
         \<or> fst (create_flashcard E W body) = Inl (HTTPException s m)
         \<or> fst (get_flashcard E W card_id) = Inl (HTTPException s m)
         \<or> fst (update_flashcard E W card_id body) = Inl (HTTPException s m)
         \<or> fst (delete_flashcard E W card_id) = Inl (HTTPException s m))
        \<longrightarrow> (s, m) \<in> {(400, ''Invalid ID''), (404, ''Flashcard not found''),
                        (500, ''Database not available'')})"
proof (intro conjI impI allI)
  fix s m
  assume "fst (list_flashcards E W deck_arg tag_arg limit) = Inl (HTTPException s m)
         \<or> fst (create_flashcard E W body) = Inl (HTTPException s m)
         \<or> fst (get_flashcard E W card_id) = Inl (HTTPException s m)
         \<or> fst (update_flashcard E W card_id body) = Inl (HTTPException s m)
         \<or> fst (delete_flashcard E W card_id) = Inl (HTTPException s m)"
  then show "(s, m) \<in> {(400, ''Invalid ID''), (404, ''Flashcard not found''),
                        (500, ''Database not available'')}"
    using list_flashcards_http [of E W deck_arg tag_arg limit s m]
      create_flashcard_http [of E W body s m]
      get_flashcard_http [of E W card_id s m]
      update_flashcard_http [of E W card_id body s m]
      delete_flashcard_http [of E W card_id s m]
    by blast
qed (simp_all add: list_flashcards_def create_flashcard_def get_flashcard_def
      update_flashcard_def delete_flashcard_def)

theorem database_unavailable_is_500_witness:
  "db (world0\<lparr>db := None\<rparr>) = None
   \<and> list_flashcards env0 (world0\<lparr>db := None\<rparr>) (Some ''maths'') None (Some 3)
       = (Inl (HTTPException 500 ''Database not available''), world0\<lparr>db := None\<rparr>)
   \<and> create_flashcard env0 (world0\<lparr>db := None\<rparr>) body0
       = (Inl (HTTPException 500 ''Database not available''), world0\<lparr>db := None\<rparr>)
   \<and> get_flashcard env0 (world0\<lparr>db := None\<rparr>) ''not-an-id''
       = (Inl (HTTPException 500 ''Database not available''), world0\<lparr>db := None\<rparr>)
   \<and> update_flashcard env0 (world0\<lparr>db := None\<rparr>) ''not-an-id'' body0
       = (Inl (HTTPException 500 ''Database not available''), world0\<lparr>db := None\<rparr>)
   \<and> delete_flashcard env0 (world0\<lparr>db := None\<rparr>) ''not-an-id''
       = (Inl (HTTPException 500 ''Database not available''), world0\<lparr>db := None\<rparr>)
   \<and> fst (get_flashcard env0 world0 ''not-an-id'') = Inl (HTTPException 400 ''Invalid ID'')
   \<and> (400, ''Invalid ID'') \<in> {(400, ''Invalid ID''), (404, ''Flashcard not found''),
                                (500, ''Database not available'')}"
proof -
  have a: "db (world0\<lparr>db := None\<rparr>) = None" by simp
  have b: "fst (get_flashcard env0 world0 ''not-an-id'')
             = Inl (HTTPException 400 ''Invalid ID'')"
    by (simp add: get_flashcard_def world0_def env0_def)
  note t1 = database_unavailable_is_500
    [of "world0\<lparr>db := None\<rparr>" env0 "Some ''maths''" None "Some 3" body0 "''not-an-id''"]
  note t2 = database_unavailable_is_500
    [of world0 env0 None None None body0 "''not-an-id''"]
  from t2 b have c: "(400, ''Invalid ID'') \<in> {(400, ''Invalid ID''),
      (404, ''Flashcard not found''), (500, ''Database not available'')}"
    by blast
  from t1 a b c show ?thesis by blast
qed

subsection \<open>Identifiers that match nothing\<close>

text \<open>
  C1. With the database available and a \<^verbatim>\<open>card_id\<close> that parses to \<open>oid\<close>, the 404
  "Flashcard not found" of each handler mirrors the driver's result: the read raises it
  exactly when \<^verbatim>\<open>find_one\<close> returns no document, the update exactly when
  \<^verbatim>\<open>matched_count\<close> is 0, the delete exactly when \<^verbatim>\<open>deleted_count\<close> is 0. When no
  stored document has this identifier, all three raise it, and the database is left as it
  was.
\<close>

theorem not_found_is_404:
  assumes "db W = Some D" and "ObjectId_of_str E card_id = Some oid"
  shows "(fst (get_flashcard E W card_id) = Inl (HTTPException 404 ''Flashcard not found'')
            \<longleftrightarrow> find_one (collection D ''flashcard'') [(''_id'', PObjectId oid)] = None)
       \<and> (fst (update_flashcard E W card_id body)
              = Inl (HTTPException 404 ''Flashcard not found'')
            \<longleftrightarrow> fst (update_one (collection D ''flashcard'') [(''_id'', PObjectId oid)]
                       (update_data_of E body)) = 0)
       \<and> (fst (delete_flashcard E W card_id) = Inl (HTTPException 404 ''Flashcard not found'')
            \<longleftrightarrow> fst (delete_one (collection D ''flashcard'') [(''_id'', PObjectId oid)]) = 0)
       \<and> ((\<forall>d \<in> set (collection D ''flashcard''). map_of d ''_id'' \<noteq> Some (PObjectId oid))
            \<longrightarrow> fst (get_flashcard E W card_id)
                  = Inl (HTTPException 404 ''Flashcard not found'')
              \<and> fst (update_flashcard E W card_id body)
                  = Inl (HTTPException 404 ''Flashcard not found'')
              \<and> fst (delete_flashcard E W card_id)
                  = Inl (HTTPException 404 ''Flashcard not found'')
              \<and> db (snd (get_flashcard E W card_id)) = Some D
              \<and> db (snd (update_flashcard E W card_id body)) = Some D
              \<and> db (snd (delete_flashcard E W card_id)) = Some D)"
proof -
  let ?c = "collection D ''flashcard''"
  let ?flt = "[(''_id'', PObjectId oid)]"
  let ?nf = "Inl (HTTPException 404 ''Flashcard not found'')"
  obtain n c1 where u: "update_one ?c ?flt (update_data_of E body) = (n, c1)"
    by (cases "update_one ?c ?flt (update_data_of E body)")
  obtain k c2 where dl: "delete_one ?c ?flt = (k, c2)"
    by (cases "delete_one ?c ?flt")
  have g: "fst (get_flashcard E W card_id) = ?nf \<longleftrightarrow> find_one ?c ?flt = None"
  proof (cases "find_one ?c ?flt")
    case None
    with assms show ?thesis by (simp add: get_flashcard_def)
  next
    case (Some d)
    then have "d \<noteq> []" by (rule find_one_id_nonempty)
    with assms Some show ?thesis
      by (simp add: get_flashcard_def FlashcardOut_new_not_http)
  qed
  have up: "fst (update_flashcard E W card_id body) = ?nf \<longleftrightarrow> n = 0"
    using assms u by (simp add: update_flashcard_def Let_def FlashcardOut_new_not_http)
  have de: "fst (delete_flashcard E W card_id) = ?nf \<longleftrightarrow> k = 0"
    using assms dl by (simp add: delete_flashcard_def Let_def)
  have dbg: "db (snd (get_flashcard E W card_id)) = Some D"
    using assms by (simp add: get_flashcard_def Let_def issue_def)
  have dbu: "n = 0 \<Longrightarrow> db (snd (update_flashcard E W card_id body)) = Some D"
    using assms u by (simp add: update_flashcard_def Let_def issue_def)
  have dbd: "k = 0 \<Longrightarrow> db (snd (delete_flashcard E W card_id)) = Some D"
    using assms dl by (simp add: delete_flashcard_def Let_def issue_def)
  have none: "(\<forall>d \<in> set ?c. map_of d ''_id'' \<noteq> Some (PObjectId oid))
              \<Longrightarrow> find_one ?c ?flt = None \<and> n = 0 \<and> k = 0"
    using update_one_count_zero_iff [of ?c ?flt "update_data_of E body"]
      delete_one_count_zero_iff [of ?c ?flt] u dl
    by (simp add: find_one_None_iff matches_id)
  from g up de dbg dbu dbd none u dl show ?thesis by auto
qed

theorem not_found_is_404_witness:
  "db world0 = Some database0
   \<and> ObjectId_of_str env0 ''ffffffffffffffffffffffff'' = Some (ObjectId ''ffffffffffffffffffffffff'')
   \<and> find_one (collection database0 ''flashcard'')
        [(''_id'', PObjectId (ObjectId ''ffffffffffffffffffffffff''))] = None
   \<and> fst (get_flashcard env0 world0 ''ffffffffffffffffffffffff'')
        = Inl (HTTPException 404 ''Flashcard not found'')
   \<and> fst (update_flashcard env0 world0 ''ffffffffffffffffffffffff'' body0)
        = Inl (HTTPException 404 ''Flashcard not found'')
   \<and> fst (delete_flashcard env0 world0 ''ffffffffffffffffffffffff'')
        = Inl (HTTPException 404 ''Flashcard not found'')
   \<and> fst (get_flashcard env0 world0 ''0123456789abcdef01234567'')
        \<noteq> Inl (HTTPException 404 ''Flashcard not found'')"
proof -
  have a: "db world0 = Some database0" by (simp add: world0_def)
  have b: "ObjectId_of_str env0 ''ffffffffffffffffffffffff''
             = Some (ObjectId ''ffffffffffffffffffffffff'')"
    by (simp add: env0_def)
  have b': "ObjectId_of_str env0 ''0123456789abcdef01234567''
             = Some (ObjectId ''0123456789abcdef01234567'')"
    by (simp add: env0_def)
  have c: "collection database0 ''flashcard'' = [doc0]"
    by (simp add: collection_def database0_def)
  have f: "find_one (collection database0 ''flashcard'')
             [(''_id'', PObjectId (ObjectId ''ffffffffffffffffffffffff''))] = None"
    unfolding c by (simp add: find_one_def matches_def doc0_def)
  have f': "find_one (collection database0 ''flashcard'')
             [(''_id'', PObjectId (ObjectId ''0123456789abcdef01234567''))] \<noteq> None"
    unfolding c by (simp add: find_one_def matches_def doc0_def)
  have none: "\<forall>d \<in> set (collection database0 ''flashcard'').
                map_of d ''_id'' \<noteq> Some (PObjectId (ObjectId ''ffffffffffffffffffffffff''))"
    unfolding c by (simp add: doc0_def)
  note t = not_found_is_404 [OF a b, of body0]
  note t' = not_found_is_404 [OF a b', of body0]
  from t none have r: "fst (get_flashcard env0 world0 ''ffffffffffffffffffffffff'')
        = Inl (HTTPException 404 ''Flashcard not found'')
   \<and> fst (update_flashcard env0 world0 ''ffffffffffffffffffffffff'' body0)
        = Inl (HTTPException 404 ''Flashcard not found'')
   \<and> fst (delete_flashcard env0 world0 ''ffffffffffffffffffffffff'')
        = Inl (HTTPException 404 ''Flashcard not found'')"
    by blast
  from t' f' have r': "fst (get_flashcard env0 world0 ''0123456789abcdef01234567'')
        \<noteq> Inl (HTTPException 404 ''Flashcard not found'')"
    by blast
  from a b f r r' show ?thesis by blast
qed

end
